theory Spec2Isabelle
  imports Main
begin

section \<open>The class-scheduling form page (\<open>src/app/dashboard/faculty/classes/create/page.tsx\<close>)\<close>

text \<open>
  The page is a React component \<open>CreateClass\<close> with five pieces of component state, an
  effect \<open>fetchCourses\<close> that loads the courses of the signed-in faculty user, and a
  submit handler \<open>handleSubmit\<close> that validates the form and inserts one row.

  The embedding keeps the component state as a record and lets each handler return the
  list of effects it performs, in program order: state setters, queries sent to the
  data store, console output and the timer that carries the redirect. The state after a
  handler is the state before it with the setters applied in that order (\<open>run\<close>).
  What the page cannot see from its own code (the signed-in user, the answers of the
  data store, the \<open>Date\<close> functions of the JavaScript runtime, the clock) is collected in
  an environment record \<open>env\<close>.
\<close>

subsection \<open>Data\<close>

text \<open>The user supplied by \<open>useAuth()\<close>; the page reads \<open>user.id\<close> and \<open>user.role\<close>.\<close>

record auth_user =
  id_user :: string
  role :: string

text \<open>A row of \<open>courses\<close>; the page reads \<open>id\<close>, \<open>code\<close> and \<open>title\<close>.\<close>

record course =
  id_course :: string
  code :: string
  title_course :: string

text \<open>A row of \<open>teaching_assignments\<close> as selected by \<open>.select("course_id")\<close>.\<close>

record assignment =
  course_id_assignment :: string

text \<open>\<open>useState({ text: "", type: "" })\<close>.\<close>

record msg =
  text_msg :: string
  type_msg :: string

text \<open>The form state, lines 20 to 29. Every field is a JavaScript string.\<close>

record form_data =
  courseId :: string
  title :: string
  description :: string
  startDate :: string
  startTime :: string
  endDate :: string
  endTime :: string
  meetingLink :: string

text \<open>The component state, lines 16 to 29.\<close>

record page_state =
  courses :: "course list"
  loading :: bool
  submitting :: bool
  message :: msg
  formData :: form_data

text \<open>
  The object \<open>classData\<close> of lines 137 to 147. \<open>None\<close> is JavaScript's \<open>null\<close>.
\<close>

record class_data =
  course_id :: string
  title_row :: string
  description_row :: "string option"
  start_time :: string
  end_time :: string
  meeting_link :: "string option"
  created_by :: string
  reminder_sent :: bool
  updated_at :: string

subsection \<open>Queries and their answers\<close>

text \<open>
  The query builder calls of the page: \<open>.eq(column, value)\<close> and \<open>.in(column, values)\<close>
  are the filters, \<open>.order(column)\<close> the optional ordering, and
  \<open>.from(table).insert(row).select()\<close> the write.
\<close>

datatype filter_clause = Eq string string | In string "string list"

datatype query =
  Select string string filter_clause "string option"
| Insert string class_data

text \<open>
  A thrown value, as far as the page looks at it. The page only ever reads the property
  \<open>message\<close> of such a value: on \<open>null\<close> and \<open>undefined\<close> (\<open>Nullish\<close>) that read raises
  a \<open>TypeError\<close>; on every other value it yields the message, or \<open>undefined\<close> (\<open>None\<close>)
  when the value has no such property.
\<close>

datatype thrown = Nullish | Value "string option"

text \<open>
  An awaited query either resolves to \<open>{ data, error }\<close> or rejects. \<open>data\<close> may be
  \<open>null\<close>; \<open>error\<close> is \<open>null\<close> or an object, of which the page reads \<open>message\<close>. A
  rejection carries the value the promise was rejected with.
\<close>

datatype 'a outcome =
  Resolved "'a list option" "string option"
| Rejected thrown

text \<open>
  The environment of the component. \<open>newDate s\<close> is the time value, in milliseconds,
  of \<open>new Date(s)\<close>, or \<open>None\<close> for an Invalid Date; \<open>toISOString t\<close> is the string
  that \<open>toISOString()\<close> returns for a date with time value \<open>t\<close>; \<open>now\<close> is the time value
  of \<open>new Date()\<close>. The three remaining fields are the data store: the answer it gives
  to each query.
\<close>

record 'r env =
  user :: "auth_user option"
  newDate :: "string \<Rightarrow> int option"
  toISOString :: "int \<Rightarrow> string"
  now :: int
  select_assignments :: "query \<Rightarrow> assignment outcome"
  select_courses :: "query \<Rightarrow> course outcome"
  insert_class :: "query \<Rightarrow> 'r outcome"

subsection \<open>Effects\<close>

datatype timer_action = RouterPush string

datatype effect =
  PreventDefault
| SetLoading bool
| SetSubmitting bool
| SetMessage msg
| SetCourses "course list"
| SetFormData form_data
| SetCourseId string
| Query query
| ConsoleError string thrown
| SetTimeout nat timer_action
| UncaughtTypeError

text \<open>
  \<open>SetCourseId c\<close> is the functional update
  \<open>setFormData((prev) => ({ ...prev, courseId: c }))\<close> of line 69.
  \<open>ConsoleError label v\<close> is \<open>console.error(label, error)\<close> with \<open>v\<close> the logged value.
  \<open>UncaughtTypeError\<close> is a \<open>TypeError\<close> that leaves the handler uncaught: the promise
  the \<open>async\<close> function returned rejects, and nothing in the page observes it.
\<close>

fun apply_effect :: "page_state \<Rightarrow> effect \<Rightarrow> page_state" where
  "apply_effect st (SetLoading b) = st\<lparr>loading := b\<rparr>"
| "apply_effect st (SetSubmitting b) = st\<lparr>submitting := b\<rparr>"
| "apply_effect st (SetMessage m) = st\<lparr>message := m\<rparr>"
| "apply_effect st (SetCourses cs) = st\<lparr>courses := cs\<rparr>"
| "apply_effect st (SetFormData f) = st\<lparr>formData := f\<rparr>"
| "apply_effect st (SetCourseId c) = st\<lparr>formData := (formData st)\<lparr>courseId := c\<rparr>\<rparr>"
| "apply_effect st PreventDefault = st"
| "apply_effect st (Query q) = st"
| "apply_effect st (ConsoleError l m) = st"
| "apply_effect st (SetTimeout n a) = st"
| "apply_effect st UncaughtTypeError = st"

definition run :: "page_state \<Rightarrow> effect list \<Rightarrow> page_state" where
  "run st es = foldl apply_effect st es"

text \<open>The initial values of the \<open>useState\<close> calls.\<close>

definition initial_state :: page_state where
  "initial_state =
     \<lparr>courses = [], loading = True, submitting = False,
      message = \<lparr>text_msg = '''', type_msg = ''''\<rparr>,
      formData = \<lparr>courseId = '''', title = '''', description = '''', startDate = '''',
                  startTime = '''', endDate = '''', endTime = '''', meetingLink = ''''\<rparr>\<rparr>"

subsection \<open>try, catch, finally\<close>

text \<open>
  A \<open>try\<close> block performs some effects and then completes normally, by \<open>return\<close>, or by
  throwing a value. The \<open>catch\<close> clause runs on a throw only; it either runs to its end
  or is cut short by a \<open>TypeError\<close> of its own (reading a property of \<open>null\<close> or
  \<open>undefined\<close>). The \<open>finally\<close> clause runs on every completion; an error raised
  inside the \<open>catch\<close> clause leaves the function after it.
\<close>

datatype completion = Normal | Return | Throw thrown

datatype clause_end = Completes | RaisesTypeError

definition try_catch_finally ::
  "effect list \<times> completion \<Rightarrow> (thrown \<Rightarrow> effect list \<times> clause_end) \<Rightarrow> effect list \<Rightarrow>
   effect list"
where
  "try_catch_finally body handler fin =
     (case body of
        (es, Throw v) \<Rightarrow>
          (case handler v of
             (hs, Completes) \<Rightarrow> es @ hs @ fin
           | (hs, RaisesTypeError) \<Rightarrow> es @ hs @ fin @ [UncaughtTypeError])
      | (es, _) \<Rightarrow> es @ fin)"

subsection \<open>\<open>fetchCourses\<close>, lines 33 to 79\<close>

definition not_assigned_msg :: msg where
  "not_assigned_msg =
     \<lparr>text_msg = ''You are not assigned to any courses. Please contact an administrator.'',
      type_msg = ''error''\<rparr>"

definition no_courses_msg :: msg where
  "no_courses_msg =
     \<lparr>text_msg = ''No courses found. Please contact an administrator.'', type_msg = ''error''\<rparr>"

definition load_failed_msg :: msg where
  "load_failed_msg =
     \<lparr>text_msg = ''Failed to load courses. Please refresh the page.'', type_msg = ''error''\<rparr>"

text \<open>The first read, lines 40 to 43.\<close>

definition assignments_query :: "auth_user \<Rightarrow> query" where
  "assignments_query u =
     Select ''teaching_assignments'' ''course_id'' (Eq ''user_id'' (id_user u)) None"

text \<open>The second read, lines 59 to 63.\<close>

definition courses_query :: "string list \<Rightarrow> query" where
  "courses_query courseIds = Select ''courses'' ''*'' (In ''id'' courseIds) (Some ''code'')"

text \<open>Lines 56 to 72: what follows a non-empty answer to the first read.\<close>

definition fetch_details :: "('r, 'z) env_scheme \<Rightarrow> assignment list \<Rightarrow> effect list \<times> completion" where
  "fetch_details E teachingAssignments =
     (let courseIds = map course_id_assignment teachingAssignments;
          q = courses_query courseIds
      in case select_courses E q of
           Rejected v \<Rightarrow> ([Query q], Throw v)
         | Resolved coursesData coursesError \<Rightarrow>
             (case coursesError of
                Some m \<Rightarrow> ([Query q], Throw (Value (Some m)))
              | None \<Rightarrow>
                  (case coursesData of
                     Some (c # cs) \<Rightarrow>
                       ([Query q, SetCourses (c # cs), SetCourseId (id_course c)], Normal)
                   | _ \<Rightarrow> ([Query q, SetMessage no_courses_msg], Normal))))"

text \<open>Lines 37 to 54: the body of the \<open>try\<close> block up to the second read.\<close>

definition fetch_try :: "('r, 'z) env_scheme \<Rightarrow> auth_user \<Rightarrow> effect list \<times> completion" where
  "fetch_try E u =
     (let q = assignments_query u
      in case select_assignments E q of
           Rejected v \<Rightarrow> ([SetLoading True, Query q], Throw v)
         | Resolved teachingAssignments assignmentsError \<Rightarrow>
             (case assignmentsError of
                Some m \<Rightarrow> ([SetLoading True, Query q], Throw (Value (Some m)))
              | None \<Rightarrow>
                  (case teachingAssignments of
                     Some (a # as) \<Rightarrow>
                       (case fetch_details E (a # as) of
                          (es, c) \<Rightarrow> ([SetLoading True, Query q] @ es, c))
                   | _ \<Rightarrow>
                       ([SetLoading True, Query q, SetMessage not_assigned_msg, SetLoading False],
                        Return))))"

text \<open>Lines 73 to 75. The clause reads no property of the caught value.\<close>

definition fetch_catch :: "thrown \<Rightarrow> effect list \<times> clause_end" where
  "fetch_catch v =
     ([ConsoleError ''Error fetching courses:'' v, SetMessage load_failed_msg], Completes)"

definition fetchCourses :: "('r, 'z) env_scheme \<Rightarrow> effect list" where
  "fetchCourses E =
     (case user E of
        None \<Rightarrow> []
      | Some u \<Rightarrow>
          if role u \<noteq> ''faculty'' then []
          else try_catch_finally (fetch_try E u) fetch_catch [SetLoading False])"

subsection \<open>\<open>handleSubmit\<close>, lines 89 to 188\<close>

definition permission_msg :: msg where
  "permission_msg =
     \<lparr>text_msg = ''You don't have permission to perform this action'', type_msg = ''error''\<rparr>"

definition empty_msg :: msg where
  "empty_msg = \<lparr>text_msg = '''', type_msg = ''''\<rparr>"

definition required_msg :: msg where
  "required_msg = \<lparr>text_msg = ''Please fill in all required fields'', type_msg = ''error''\<rparr>"

definition invalid_date_msg :: msg where
  "invalid_date_msg = \<lparr>text_msg = ''Invalid date or time format'', type_msg = ''error''\<rparr>"

definition end_before_start_msg :: msg where
  "end_before_start_msg =
     \<lparr>text_msg = ''End time must be after start time'', type_msg = ''error''\<rparr>"

definition success_msg :: msg where
  "success_msg = \<lparr>text_msg = ''Class session created successfully'', type_msg = ''success''\<rparr>"

text \<open>
  The condition of lines 102 to 109. \<open>!s\<close> on a string \<open>s\<close> is true exactly for the
  empty string.
\<close>

definition missing_required :: "form_data \<Rightarrow> bool" where
  "missing_required f \<longleftrightarrow>
     courseId f = [] \<or> title f = [] \<or> startDate f = [] \<or> startTime f = [] \<or>
     endDate f = [] \<or> endTime f = []"

text \<open>The template strings of lines 119 and 120.\<close>

definition start_string :: "form_data \<Rightarrow> string" where
  "start_string f = startDate f @ ''T'' @ startTime f"

definition end_string :: "form_data \<Rightarrow> string" where
  "end_string f = endDate f @ ''T'' @ endTime f"

text \<open>
  \<open>a <= b\<close> on two \<open>Date\<close> objects compares their time values; with an Invalid Date
  (time value \<open>NaN\<close>) on either side it is false.
\<close>

definition date_le :: "int option \<Rightarrow> int option \<Rightarrow> bool" where
  "date_le a b = (case (a, b) of (Some x, Some y) \<Rightarrow> x \<le> y | _ \<Rightarrow> False)"

text \<open>\<open>s || null\<close> on a string \<open>s\<close>.\<close>

definition or_null :: "string \<Rightarrow> string option" where
  "or_null s = (if s = [] then None else Some s)"

text \<open>Lines 137 to 147.\<close>

definition classData ::
  "('r, 'z) env_scheme \<Rightarrow> auth_user \<Rightarrow> form_data \<Rightarrow> string \<Rightarrow> string \<Rightarrow> class_data" where
  "classData E u f startDateTime endDateTime =
     \<lparr>course_id = courseId f,
      title_row = title f,
      description_row = or_null (description f),
      start_time = startDateTime,
      end_time = endDateTime,
      meeting_link = or_null (meetingLink f),
      created_by = id_user u,
      reminder_sent = False,
      updated_at = toISOString E (now E)\<rparr>"

text \<open>Lines 164 to 173.\<close>

definition reset_form :: "form_data \<Rightarrow> form_data" where
  "reset_form f =
     \<lparr>courseId = courseId f, title = '''', description = '''', startDate = '''',
      startTime = '''', endDate = '''', endTime = '''', meetingLink = ''''\<rparr>"

text \<open>Lines 176 to 178: the navigation, deferred by a timer of 2000 milliseconds.\<close>

definition redirect :: effect where
  "redirect = SetTimeout 2000 (RouterPush ''/dashboard/faculty/classes'')"

text \<open>Lines 149 to 178: the write and what follows it inside the \<open>try\<close> block.\<close>

definition submit_insert ::
  "('r, 'z) env_scheme \<Rightarrow> form_data \<Rightarrow> class_data \<Rightarrow> effect list \<times> completion" where
  "submit_insert E f row =
     (let q = Insert ''class_sessions'' row
      in case insert_class E q of
           Rejected v \<Rightarrow> ([Query q], Throw v)
         | Resolved data error \<Rightarrow>
             (case error of
                Some m \<Rightarrow>
                  ([Query q, ConsoleError ''Supabase error:'' (Value (Some m))],
                   Throw (Value (Some (''Database error: '' @ m))))
              | None \<Rightarrow>
                  (case data of
                     Some (r # rs) \<Rightarrow>
                       ([Query q, SetMessage success_msg, SetFormData (reset_form f), redirect],
                        Normal)
                   | _ \<Rightarrow>
                       ([Query q],
                        Throw (Value (Some ''No data returned from database after insert''))))))"

text \<open>
  Lines 115 to 147: the two dates are built first; \<open>toISOString()\<close> throws a
  \<open>RangeError\<close> on an Invalid Date, which the inner \<open>catch\<close> turns into a message and
  a \<open>return\<close>.
\<close>

definition submit_dates ::
  "('r, 'z) env_scheme \<Rightarrow> auth_user \<Rightarrow> form_data \<Rightarrow> effect list \<times> completion" where
  "submit_dates E u f =
     (case (newDate E (start_string f), newDate E (end_string f)) of
        (Some s, Some e) \<Rightarrow>
          (let startDateTime = toISOString E s;
               endDateTime = toISOString E e
           in if date_le (newDate E endDateTime) (newDate E startDateTime)
              then ([SetMessage end_before_start_msg, SetSubmitting False], Return)
              else submit_insert E f (classData E u f startDateTime endDateTime))
      | _ \<Rightarrow> ([SetMessage invalid_date_msg, SetSubmitting False], Return))"

text \<open>Lines 98 to 178: the \<open>try\<close> block.\<close>

definition submit_try ::
  "('r, 'z) env_scheme \<Rightarrow> auth_user \<Rightarrow> form_data \<Rightarrow> effect list \<times> completion" where
  "submit_try E u f =
     (if missing_required f
      then ([SetSubmitting True, SetMessage empty_msg,
             SetMessage required_msg, SetSubmitting False], Return)
      else case submit_dates E u f of
             (es, c) \<Rightarrow> ([SetSubmitting True, SetMessage empty_msg] @ es, c))"

text \<open>
  Lines 179 to 184. \<open>console.error\<close> runs first, on any caught value. The template of
  line 182 then reads \<open>error.message\<close>: on \<open>null\<close> or \<open>undefined\<close> that read raises a
  \<open>TypeError\<close> before \<open>setMessage\<close> is called; otherwise \<open>m || "Unknown error"\<close> takes the
  default for an absent or empty message.
\<close>

definition failure_text :: "string option \<Rightarrow> string" where
  "failure_text m =
     ''Failed to create class session: '' @
       (case m of None \<Rightarrow> ''Unknown error'' | Some s \<Rightarrow> if s = [] then ''Unknown error'' else s)"

definition submit_catch :: "thrown \<Rightarrow> effect list \<times> clause_end" where
  "submit_catch v =
     (case v of
        Nullish \<Rightarrow> ([ConsoleError ''Error creating class session:'' Nullish], RaisesTypeError)
      | Value m \<Rightarrow>
          ([ConsoleError ''Error creating class session:'' (Value m),
            SetMessage \<lparr>text_msg = failure_text m, type_msg = ''error''\<rparr>], Completes))"

definition handleSubmit :: "('r, 'z) env_scheme \<Rightarrow> page_state \<Rightarrow> effect list" where
  "handleSubmit E st =
     PreventDefault #
     (case user E of
        None \<Rightarrow> [SetMessage permission_msg]
      | Some u \<Rightarrow>
          if role u \<noteq> ''faculty'' then [SetMessage permission_msg]
          else try_catch_finally (submit_try E u (formData st)) submit_catch
                 [SetSubmitting False])"

subsection \<open>What the component renders, lines 190 to 397\<close>

text \<open>
  Without a faculty user the page shows a notice only; while \<open>loading\<close> it shows a
  spinner; otherwise it shows the form, whose submit button carries
  \<open>disabled={submitting || courses.length === 0}\<close>.
\<close>

datatype view = PermissionNotice | Spinner | FormView bool

definition submit_disabled :: "page_state \<Rightarrow> bool" where
  "submit_disabled st \<longleftrightarrow> submitting st \<or> length (courses st) = 0"

definition render :: "('r, 'z) env_scheme \<Rightarrow> page_state \<Rightarrow> view" where
  "render E st =
     (case user E of
        None \<Rightarrow> PermissionNotice
      | Some u \<Rightarrow>
          if role u \<noteq> ''faculty'' then PermissionNotice
          else if loading st then Spinner
          else FormView (submit_disabled st))"

subsection \<open>Observations on a list of effects\<close>

text \<open>The queries sent to the data store, in the order they are sent.\<close>

fun queries_of :: "effect list \<Rightarrow> query list" where
  "queries_of [] = []"
| "queries_of (Query q # es) = q # queries_of es"
| "queries_of (x # es) = queries_of es"

subsection \<open>Sample inputs\<close>

text \<open>
  A runtime in the time zone UTC, restricted to the instants the samples use:
  1 March 2025 at 09:00, 10:00 and 11:30, as milliseconds since the epoch.
\<close>

definition sample_newDate :: "string \<Rightarrow> int option" where
  "sample_newDate s =
     (if s = ''2025-03-01T10:00'' \<or> s = ''2025-03-01T10:00:00.000Z'' then Some 1740823200000
      else if s = ''2025-03-01T11:30'' \<or> s = ''2025-03-01T11:30:00.000Z'' then Some 1740828600000
      else None)"

definition sample_toISOString :: "int \<Rightarrow> string" where
  "sample_toISOString t =
     (if t = 1740823200000 then ''2025-03-01T10:00:00.000Z''
      else if t = 1740828600000 then ''2025-03-01T11:30:00.000Z''
      else ''2025-03-01T09:00:00.000Z'')"

definition sample_env ::
  "auth_user option \<Rightarrow> assignment outcome \<Rightarrow> course outcome \<Rightarrow> class_data outcome \<Rightarrow>
   class_data env" where
  "sample_env usr as cs ins =
     \<lparr>user = usr, newDate = sample_newDate, toISOString = sample_toISOString,
      now = 1740819600000,
      select_assignments = (\<lambda>q. as), select_courses = (\<lambda>q. cs), insert_class = (\<lambda>q. ins)\<rparr>"

definition faculty_user :: auth_user where
  "faculty_user = \<lparr>id_user = ''u-17'', role = ''faculty''\<rparr>"

definition student_user :: auth_user where
  "student_user = \<lparr>id_user = ''u-42'', role = ''student''\<rparr>"

definition sample_course :: course where
  "sample_course = \<lparr>id_course = ''c-1'', code = ''CSE471'', title_course = ''System Analysis''\<rparr>"

definition sample_assignment :: assignment where
  "sample_assignment = \<lparr>course_id_assignment = ''c-1''\<rparr>"

definition sample_form :: form_data where
  "sample_form =
     \<lparr>courseId = ''c-1'', title = ''Lecture 1'', description = '''',
      startDate = ''2025-03-01'', startTime = ''10:00'',
      endDate = ''2025-03-01'', endTime = ''11:30'',
      meetingLink = ''https://meet.example/abc''\<rparr>"

text \<open>The same form with start and end exchanged: it ends before it starts.\<close>

definition reversed_form :: form_data where
  "reversed_form =
     \<lparr>courseId = ''c-1'', title = ''Lecture 1'', description = '''',
      startDate = ''2025-03-01'', startTime = ''11:30'',
      endDate = ''2025-03-01'', endTime = ''10:00'',
      meetingLink = ''https://meet.example/abc''\<rparr>"

definition sample_state :: "form_data \<Rightarrow> page_state" where
  "sample_state f =
     \<lparr>courses = [sample_course], loading = False, submitting = False,
      message = \<lparr>text_msg = '''', type_msg = ''''\<rparr>, formData = f\<rparr>"

text \<open>The row that \<open>handleSubmit\<close> builds from \<open>sample_form\<close> for \<open>faculty_user\<close>.\<close>

definition sample_row :: class_data where
  "sample_row =
     \<lparr>course_id = ''c-1'', title_row = ''Lecture 1'', description_row = None,
      start_time = ''2025-03-01T10:00:00.000Z'', end_time = ''2025-03-01T11:30:00.000Z'',
      meeting_link = Some ''https://meet.example/abc'', created_by = ''u-17'',
      reminder_sent = False, updated_at = ''2025-03-01T09:00:00.000Z''\<rparr>"

section \<open>Properties\<close>

subsection \<open>The paths through \<open>handleSubmit\<close>\<close>

lemma try_catch_finally_simps:
  "try_catch_finally (es, Normal) h fin = es @ fin"
  "try_catch_finally (es, Return) h fin = es @ fin"
  "try_catch_finally (es, Throw v) h fin =
     (case h v of
        (hs, Completes) \<Rightarrow> es @ hs @ fin
      | (hs, RaisesTypeError) \<Rightarrow> es @ hs @ fin @ [UncaughtTypeError])"
  by (simp_all add: try_catch_finally_def)

lemma handleSubmit_denied:
  assumes "user E = None \<or> (\<exists>u. user E = Some u \<and> role u \<noteq> ''faculty'')"
  shows "handleSubmit E st = [PreventDefault, SetMessage permission_msg]"
  using assms by (auto simp: handleSubmit_def)

lemma handleSubmit_faculty:
  assumes "user E = Some u" "role u = ''faculty''"
  shows "handleSubmit E st =
    PreventDefault # try_catch_finally (submit_try E u (formData st)) submit_catch [SetSubmitting False]"
  using assms by (simp add: handleSubmit_def)

lemma handleSubmit_missing:
  assumes "user E = Some u" "role u = ''faculty''" "missing_required (formData st)"
  shows "handleSubmit E st =
    [PreventDefault, SetSubmitting True, SetMessage empty_msg, SetMessage required_msg,
     SetSubmitting False, SetSubmitting False]"
  using assms by (simp add: handleSubmit_faculty submit_try_def try_catch_finally_simps)

lemma handleSubmit_invalid_date:
  assumes "user E = Some u" "role u = ''faculty''" "\<not> missing_required (formData st)"
    and "newDate E (start_string (formData st)) = None \<or> newDate E (end_string (formData st)) = None"
  shows "handleSubmit E st =
    [PreventDefault, SetSubmitting True, SetMessage empty_msg, SetMessage invalid_date_msg,
     SetSubmitting False, SetSubmitting False]"
  using assms
  by (auto simp: handleSubmit_faculty submit_try_def submit_dates_def try_catch_finally_simps
      split: option.splits)

lemma handleSubmit_bad_order:
  assumes "user E = Some u" "role u = ''faculty''" "\<not> missing_required (formData st)"
    and "newDate E (start_string (formData st)) = Some s"
    and "newDate E (end_string (formData st)) = Some e"
    and "date_le (newDate E (toISOString E e)) (newDate E (toISOString E s))"
  shows "handleSubmit E st =
    [PreventDefault, SetSubmitting True, SetMessage empty_msg, SetMessage end_before_start_msg,
     SetSubmitting False, SetSubmitting False]"
  using assms
  by (simp add: handleSubmit_faculty submit_try_def submit_dates_def try_catch_finally_simps)

lemma handleSubmit_valid:
  assumes "user E = Some u" "role u = ''faculty''" "\<not> missing_required (formData st)"
    and "newDate E (start_string (formData st)) = Some s"
    and "newDate E (end_string (formData st)) = Some e"
    and "\<not> date_le (newDate E (toISOString E e)) (newDate E (toISOString E s))"
  shows "handleSubmit E st =
    PreventDefault # try_catch_finally
      (case submit_insert E (formData st)
              (classData E u (formData st) (toISOString E s) (toISOString E e)) of
         (es, c) \<Rightarrow> ([SetSubmitting True, SetMessage empty_msg] @ es, c))
      submit_catch [SetSubmitting False]"
  using assms
  by (simp add: handleSubmit_faculty submit_try_def submit_dates_def)

lemma handleSubmit_cases:
  fixes E :: "('r, 'z) env_scheme" and st :: page_state
  obtains
    (denied) "user E = None \<or> (\<exists>u. user E = Some u \<and> role u \<noteq> ''faculty'')"
  | (missing) u where "user E = Some u" "role u = ''faculty''" "missing_required (formData st)"
  | (invalid) u where "user E = Some u" "role u = ''faculty''" "\<not> missing_required (formData st)"
      "newDate E (start_string (formData st)) = None \<or> newDate E (end_string (formData st)) = None"
  | (order) u s e where "user E = Some u" "role u = ''faculty''" "\<not> missing_required (formData st)"
      "newDate E (start_string (formData st)) = Some s"
      "newDate E (end_string (formData st)) = Some e"
      "date_le (newDate E (toISOString E e)) (newDate E (toISOString E s))"
  | (valid) u s e where "user E = Some u" "role u = ''faculty''" "\<not> missing_required (formData st)"
      "newDate E (start_string (formData st)) = Some s"
      "newDate E (end_string (formData st)) = Some e"
      "\<not> date_le (newDate E (toISOString E e)) (newDate E (toISOString E s))"
proof (cases "user E")
  case None
  then show ?thesis using denied by simp
next
  case (Some u)
  show ?thesis
  proof (cases "role u = ''faculty''")
    case False
    with Some show ?thesis using denied by simp
  next
    case True
    note fac = Some True
    show ?thesis
    proof (cases "missing_required (formData st)")
      case True
      with fac show ?thesis using missing by blast
    next
      case False
      note filled = False
      show ?thesis
      proof (cases "newDate E (start_string (formData st))")
        case None
        with fac filled show ?thesis using invalid by blast
      next
        case s: (Some s)
        show ?thesis
        proof (cases "newDate E (end_string (formData st))")
          case None
          with fac filled show ?thesis using invalid by blast
        next
          case e: (Some e)
          show ?thesis
          proof (cases "date_le (newDate E (toISOString E e)) (newDate E (toISOString E s))")
            case True
            with fac filled s e show ?thesis using order by blast
          next
            case False
            with fac filled s e show ?thesis using valid by blast
          qed
        qed
      qed
    qed
  qed
qed

lemma submit_insert_success:
  assumes "insert_class E (Insert ''class_sessions'' row) = Resolved (Some (r # rs)) None"
  shows "submit_insert E f row =
    ([Query (Insert ''class_sessions'' row), SetMessage success_msg, SetFormData (reset_form f),
      redirect], Normal)"
  using assms by (simp add: submit_insert_def)

lemma submit_insert_rejected:
  assumes "insert_class E (Insert ''class_sessions'' row) = Rejected v"
  shows "submit_insert E f row = ([Query (Insert ''class_sessions'' row)], Throw v)"
  using assms by (simp add: submit_insert_def)

lemma submit_insert_error:
  assumes "insert_class E (Insert ''class_sessions'' row) = Resolved d (Some m)"
  shows "submit_insert E f row =
    ([Query (Insert ''class_sessions'' row), ConsoleError ''Supabase error:'' (Value (Some m))],
     Throw (Value (Some (''Database error: '' @ m))))"
  using assms by (simp add: submit_insert_def)

lemma submit_insert_no_rows:
  assumes "insert_class E (Insert ''class_sessions'' row) = Resolved None None \<or>
           insert_class E (Insert ''class_sessions'' row) = Resolved (Some []) None"
  shows "submit_insert E f row =
    ([Query (Insert ''class_sessions'' row)],
     Throw (Value (Some ''No data returned from database after insert'')))"
  using assms by (auto simp: submit_insert_def)

lemma outcome_cases:
  obtains (success) r rs where "x = Resolved (Some (r # rs)) None"
  | (rejected) v where "x = Rejected v"
  | (error) d m where "x = Resolved d (Some m)"
  | (no_rows) "x = Resolved None None \<or> x = Resolved (Some []) None"
proof (cases x)
  case (Resolved d err)
  show ?thesis
  proof (cases err)
    case None
    show ?thesis
    proof (cases d)
      case dn: None
      with Resolved None show ?thesis using no_rows by simp
    next
      case (Some rows)
      with Resolved None show ?thesis using no_rows success by (cases rows) simp_all
    qed
  next
    case (Some m)
    with Resolved show ?thesis using error by simp
  qed
next
  case (Rejected v)
  then show ?thesis using rejected by simp
qed

lemma submit_insert_query:
  "\<exists>rest c. submit_insert E f row = (Query (Insert ''class_sessions'' row) # rest, c) \<and>
     (\<forall>q. Query q \<notin> set rest)"
  by (cases "insert_class E (Insert ''class_sessions'' row)" rule: outcome_cases)
     (auto simp: submit_insert_success submit_insert_rejected submit_insert_error
        submit_insert_no_rows redirect_def)

lemma handleSubmit_success:
  assumes "user E = Some u" "role u = ''faculty''" "\<not> missing_required (formData st)"
    and "newDate E (start_string (formData st)) = Some s"
    and "newDate E (end_string (formData st)) = Some e"
    and "\<not> date_le (newDate E (toISOString E e)) (newDate E (toISOString E s))"
    and "row = classData E u (formData st) (toISOString E s) (toISOString E e)"
    and "insert_class E (Insert ''class_sessions'' row) = Resolved (Some (r # rs)) None"
  shows "handleSubmit E st =
    [PreventDefault, SetSubmitting True, SetMessage empty_msg,
     Query (Insert ''class_sessions'' row), SetMessage success_msg,
     SetFormData (reset_form (formData st)), redirect, SetSubmitting False]"
  using assms(7,8)
  by (simp add: handleSubmit_valid [OF assms(1-6)] submit_insert_success
      try_catch_finally_simps)

lemma handleSubmit_rejected:
  assumes "user E = Some u" "role u = ''faculty''" "\<not> missing_required (formData st)"
    and "newDate E (start_string (formData st)) = Some s"
    and "newDate E (end_string (formData st)) = Some e"
    and "\<not> date_le (newDate E (toISOString E e)) (newDate E (toISOString E s))"
    and "row = classData E u (formData st) (toISOString E s) (toISOString E e)"
    and "insert_class E (Insert ''class_sessions'' row) = Rejected (Value m)"
  shows "handleSubmit E st =
    [PreventDefault, SetSubmitting True, SetMessage empty_msg,
     Query (Insert ''class_sessions'' row),
     ConsoleError ''Error creating class session:'' (Value m),
     SetMessage \<lparr>text_msg = failure_text m, type_msg = ''error''\<rparr>, SetSubmitting False]"
  using assms(7,8)
  by (simp add: handleSubmit_valid [OF assms(1-6)] submit_insert_rejected
      try_catch_finally_simps submit_catch_def)

lemma handleSubmit_rejected_null:
  assumes "user E = Some u" "role u = ''faculty''" "\<not> missing_required (formData st)"
    and "newDate E (start_string (formData st)) = Some s"
    and "newDate E (end_string (formData st)) = Some e"
    and "\<not> date_le (newDate E (toISOString E e)) (newDate E (toISOString E s))"
    and "row = classData E u (formData st) (toISOString E s) (toISOString E e)"
    and "insert_class E (Insert ''class_sessions'' row) = Rejected Nullish"
  shows "handleSubmit E st =
    [PreventDefault, SetSubmitting True, SetMessage empty_msg,
     Query (Insert ''class_sessions'' row),
     ConsoleError ''Error creating class session:'' Nullish,
     SetSubmitting False, UncaughtTypeError]"
  using assms(7,8)
  by (simp add: handleSubmit_valid [OF assms(1-6)] submit_insert_rejected
      try_catch_finally_simps submit_catch_def)

lemma handleSubmit_error:
  assumes "user E = Some u" "role u = ''faculty''" "\<not> missing_required (formData st)"
    and "newDate E (start_string (formData st)) = Some s"
    and "newDate E (end_string (formData st)) = Some e"
    and "\<not> date_le (newDate E (toISOString E e)) (newDate E (toISOString E s))"
    and "row = classData E u (formData st) (toISOString E s) (toISOString E e)"
    and "insert_class E (Insert ''class_sessions'' row) = Resolved d (Some m)"
  shows "handleSubmit E st =
    [PreventDefault, SetSubmitting True, SetMessage empty_msg,
     Query (Insert ''class_sessions'' row),
     ConsoleError ''Supabase error:'' (Value (Some m)),
     ConsoleError ''Error creating class session:'' (Value (Some (''Database error: '' @ m))),
     SetMessage \<lparr>text_msg = failure_text (Some (''Database error: '' @ m)), type_msg = ''error''\<rparr>,
     SetSubmitting False]"
  using assms(7,8)
  by (simp add: handleSubmit_valid [OF assms(1-6)] submit_insert_error
      try_catch_finally_simps submit_catch_def)

lemma handleSubmit_no_rows:
  assumes "user E = Some u" "role u = ''faculty''" "\<not> missing_required (formData st)"
    and "newDate E (start_string (formData st)) = Some s"
    and "newDate E (end_string (formData st)) = Some e"
    and "\<not> date_le (newDate E (toISOString E e)) (newDate E (toISOString E s))"
    and "row = classData E u (formData st) (toISOString E s) (toISOString E e)"
    and "insert_class E (Insert ''class_sessions'' row) = Resolved None None \<or>
         insert_class E (Insert ''class_sessions'' row) = Resolved (Some []) None"
  shows "handleSubmit E st =
    [PreventDefault, SetSubmitting True, SetMessage empty_msg,
     Query (Insert ''class_sessions'' row),
     ConsoleError ''Error creating class session:''
       (Value (Some ''No data returned from database after insert'')),
     SetMessage \<lparr>text_msg = failure_text (Some ''No data returned from database after insert''),
                 type_msg = ''error''\<rparr>,
     SetSubmitting False]"
  using assms(7) submit_insert_no_rows [OF assms(8)]
  by (simp add: handleSubmit_valid [OF assms(1-6)] try_catch_finally_simps submit_catch_def)

lemma insert_issued:
  assumes "Query (Insert t row) \<in> set (handleSubmit E st)"
  obtains u s e where "user E = Some u" "role u = ''faculty''"
    "\<not> missing_required (formData st)"
    "newDate E (start_string (formData st)) = Some s"
    "newDate E (end_string (formData st)) = Some e"
    "\<not> date_le (newDate E (toISOString E e)) (newDate E (toISOString E s))"
    "t = ''class_sessions''"
    "row = classData E u (formData st) (toISOString E s) (toISOString E e)"
proof (cases rule: handleSubmit_cases [where E = E and st = st])
  case denied
  from assms show ?thesis by (simp add: handleSubmit_denied [OF denied])
next
  case (missing u)
  from assms show ?thesis by (simp add: handleSubmit_missing [OF missing])
next
  case (invalid u)
  from assms show ?thesis by (simp add: handleSubmit_invalid_date [OF invalid])
next
  case (order u s e)
  from assms show ?thesis by (simp add: handleSubmit_bad_order [OF order])
next
  case (valid u s e)
  let ?row = "classData E u (formData st) (toISOString E s) (toISOString E e)"
  obtain rest c where si: "submit_insert E (formData st) ?row =
      (Query (Insert ''class_sessions'' ?row) # rest, c)" and nq: "\<forall>q. Query q \<notin> set rest"
    using submit_insert_query by blast
  have "t = ''class_sessions'' \<and> row = ?row"
    using assms nq
    by (cases c) (auto simp: handleSubmit_valid [OF valid] si try_catch_finally_simps
        submit_catch_def split: thrown.splits)
  with valid that show ?thesis by blast
qed

lemma set_queries_of: "set (queries_of es) = {q. Query q \<in> set es}"
  by (induction es rule: queries_of.induct) auto

lemma handleSubmit_valid_queries:
  assumes "user E = Some u" "role u = ''faculty''" "\<not> missing_required (formData st)"
    and "newDate E (start_string (formData st)) = Some s"
    and "newDate E (end_string (formData st)) = Some e"
    and "\<not> date_le (newDate E (toISOString E e)) (newDate E (toISOString E s))"
  shows "queries_of (handleSubmit E st) =
    [Insert ''class_sessions'' (classData E u (formData st) (toISOString E s) (toISOString E e))]"
proof -
  let ?row = "classData E u (formData st) (toISOString E s) (toISOString E e)"
  show ?thesis
  proof (cases "insert_class E (Insert ''class_sessions'' ?row)" rule: outcome_cases)
    case (success r rs)
    show ?thesis
      by (simp add: handleSubmit_success [OF assms refl success] redirect_def)
  next
    case (rejected v)
    show ?thesis
    proof (cases v)
      case Nullish
      with rejected show ?thesis by (simp add: handleSubmit_rejected_null [OF assms refl])
    next
      case (Value m)
      with rejected show ?thesis by (simp add: handleSubmit_rejected [OF assms refl])
    qed
  next
    case (error d m)
    show ?thesis by (simp add: handleSubmit_error [OF assms refl error])
  next
    case no_rows
    show ?thesis by (simp add: handleSubmit_no_rows [OF assms refl no_rows])
  qed
qed

lemma insert_success_trace:
  assumes "Query (Insert t row) \<in> set (handleSubmit E st)"
    and "insert_class E (Insert t row) = Resolved (Some (r # rs)) None"
  shows "handleSubmit E st =
    [PreventDefault, SetSubmitting True, SetMessage empty_msg,
     Query (Insert t row), SetMessage success_msg,
     SetFormData (reset_form (formData st)), redirect, SetSubmitting False]"
proof -
  from assms(1) obtain u s e where v: "user E = Some u" "role u = ''faculty''"
    "\<not> missing_required (formData st)"
    "newDate E (start_string (formData st)) = Some s"
    "newDate E (end_string (formData st)) = Some e"
    "\<not> date_le (newDate E (toISOString E e)) (newDate E (toISOString E s))"
    and t: "t = ''class_sessions''"
    and row: "row = classData E u (formData st) (toISOString E s) (toISOString E e)"
    by (rule insert_issued)
  from assms(2) have "insert_class E (Insert ''class_sessions'' row) = Resolved (Some (r # rs)) None"
    by (simp add: t)
  from handleSubmit_success [OF v row this] show ?thesis by (simp add: t)
qed

lemma insert_failure_trace:
  assumes "Query (Insert t row) \<in> set (handleSubmit E st)"
    and "(\<exists>m. insert_class E (Insert t row) = Rejected (Value m)) \<or>
         (\<exists>d m. insert_class E (Insert t row) = Resolved d (Some m)) \<or>
         insert_class E (Insert t row) = Resolved None None \<or>
         insert_class E (Insert t row) = Resolved (Some []) None"
  shows "\<exists>logs m. handleSubmit E st =
      [PreventDefault, SetSubmitting True, SetMessage empty_msg, Query (Insert t row)] @ logs @
      [SetMessage \<lparr>text_msg = failure_text m, type_msg = ''error''\<rparr>, SetSubmitting False] \<and>
      (\<forall>x \<in> set logs. \<exists>l v. x = ConsoleError l v)"
proof -
  from assms(1) obtain u s e where v: "user E = Some u" "role u = ''faculty''"
    "\<not> missing_required (formData st)"
    "newDate E (start_string (formData st)) = Some s"
    "newDate E (end_string (formData st)) = Some e"
    "\<not> date_le (newDate E (toISOString E e)) (newDate E (toISOString E s))"
    and t: "t = ''class_sessions''"
    and row: "row = classData E u (formData st) (toISOString E s) (toISOString E e)"
    by (rule insert_issued)
  let ?pre = "[PreventDefault, SetSubmitting True, SetMessage empty_msg, Query (Insert t row)]"
  from assms(2) consider
      (rejected) m where "insert_class E (Insert ''class_sessions'' row) = Rejected (Value m)"
    | (error) d m where "insert_class E (Insert ''class_sessions'' row) = Resolved d (Some m)"
    | (no_rows) "insert_class E (Insert ''class_sessions'' row) = Resolved None None \<or>
         insert_class E (Insert ''class_sessions'' row) = Resolved (Some []) None"
    unfolding t by blast
  then show ?thesis
  proof cases
    case (rejected m)
    have "handleSubmit E st = ?pre @ [ConsoleError ''Error creating class session:'' (Value m)] @
      [SetMessage \<lparr>text_msg = failure_text m, type_msg = ''error''\<rparr>, SetSubmitting False]"
      by (simp add: handleSubmit_rejected [OF v row rejected] t)
    moreover have "\<forall>x \<in> set [ConsoleError ''Error creating class session:'' (Value m)].
      \<exists>l v. x = ConsoleError l v" by simp
    ultimately show ?thesis by blast
  next
    case (error d m)
    let ?logs = "[ConsoleError ''Supabase error:'' (Value (Some m)),
      ConsoleError ''Error creating class session:'' (Value (Some (''Database error: '' @ m)))]"
    have "handleSubmit E st = ?pre @ ?logs @
      [SetMessage \<lparr>text_msg = failure_text (Some (''Database error: '' @ m)),
                  type_msg = ''error''\<rparr>, SetSubmitting False]"
      by (simp add: handleSubmit_error [OF v row error] t)
    moreover have "\<forall>x \<in> set ?logs. \<exists>l v. x = ConsoleError l v" by simp
    ultimately show ?thesis by blast
  next
    case no_rows
    let ?logs = "[ConsoleError ''Error creating class session:''
       (Value (Some ''No data returned from database after insert''))]"
    have "handleSubmit E st = ?pre @ ?logs @
      [SetMessage \<lparr>text_msg = failure_text (Some ''No data returned from database after insert''),
                  type_msg = ''error''\<rparr>, SetSubmitting False]"
      by (simp add: handleSubmit_no_rows [OF v row no_rows] t)
    moreover have "\<forall>x \<in> set ?logs. \<exists>l v. x = ConsoleError l v" by simp
    ultimately show ?thesis by blast
  qed
qed

lemma run_append: "run st (xs @ ys) = run (run st xs) ys"
  by (simp add: run_def)

lemma run_logs:
  assumes "\<forall>x \<in> set logs. \<exists>l v. x = ConsoleError l v"
  shows "run st logs = st"
  using assms by (induction logs arbitrary: st) (auto simp: run_def)

lemma timer_only_on_success:
  assumes "SetTimeout n a \<in> set (handleSubmit E st)"
  shows "\<exists>row r rs. Query (Insert ''class_sessions'' row) \<in> set (handleSubmit E st) \<and>
     insert_class E (Insert ''class_sessions'' row) = Resolved (Some (r # rs)) None"
proof (cases rule: handleSubmit_cases [where E = E and st = st])
  case denied
  from assms show ?thesis by (simp add: handleSubmit_denied [OF denied])
next
  case (missing u)
  from assms show ?thesis by (simp add: handleSubmit_missing [OF missing])
next
  case (invalid u)
  from assms show ?thesis by (simp add: handleSubmit_invalid_date [OF invalid])
next
  case (order u s e)
  from assms show ?thesis by (simp add: handleSubmit_bad_order [OF order])
next
  case (valid u s e)
  let ?row = "classData E u (formData st) (toISOString E s) (toISOString E e)"
  show ?thesis
  proof (cases "insert_class E (Insert ''class_sessions'' ?row)" rule: outcome_cases)
    case (success r rs)
    have "Query (Insert ''class_sessions'' ?row) \<in> set (handleSubmit E st)"
      by (simp add: handleSubmit_success [OF valid refl success])
    with success show ?thesis by blast
  next
    case (rejected v)
    show ?thesis
    proof (cases v)
      case Nullish
      with rejected assms show ?thesis
        by (simp add: handleSubmit_rejected_null [OF valid refl])
    next
      case (Value m)
      with rejected assms show ?thesis by (simp add: handleSubmit_rejected [OF valid refl])
    qed
  next
    case (error d m)
    from assms show ?thesis by (simp add: handleSubmit_error [OF valid refl error])
  next
    case no_rows
    from assms show ?thesis by (simp add: handleSubmit_no_rows [OF valid refl no_rows])
  qed
qed

text \<open>Unfolding the handler on concrete inputs.\<close>

lemmas submit_defs =
  handleSubmit_def submit_try_def submit_dates_def submit_insert_def submit_catch_def
  try_catch_finally_def classData_def missing_required_def start_string_def end_string_def
  date_le_def or_null_def failure_text_def reset_form_def redirect_def
  empty_msg_def success_msg_def

lemmas sample_defs =
  sample_env_def sample_newDate_def sample_toISOString_def faculty_user_def
  sample_form_def sample_state_def sample_row_def

lemma sample_submit_success:
  "handleSubmit
     (sample_env (Some faculty_user) (Rejected (Value None)) (Rejected (Value None))
        (Resolved (Some [sample_row]) None))
     (sample_state sample_form) =
   [PreventDefault, SetSubmitting True, SetMessage \<lparr>text_msg = '''', type_msg = ''''\<rparr>,
    Query (Insert ''class_sessions'' sample_row),
    SetMessage \<lparr>text_msg = ''Class session created successfully'', type_msg = ''success''\<rparr>,
    SetFormData \<lparr>courseId = ''c-1'', title = '''', description = '''', startDate = '''',
      startTime = '''', endDate = '''', endTime = '''', meetingLink = ''''\<rparr>,
    SetTimeout 2000 (RouterPush ''/dashboard/faculty/classes''), SetSubmitting False]"
  by (simp add: submit_defs sample_defs)

lemma sample_submit_failure:
  "handleSubmit
     (sample_env (Some faculty_user) (Rejected (Value None)) (Rejected (Value None))
        (Resolved None (Some ''permission denied for table class_sessions'')))
     (sample_state sample_form) =
   [PreventDefault, SetSubmitting True, SetMessage \<lparr>text_msg = '''', type_msg = ''''\<rparr>,
    Query (Insert ''class_sessions'' sample_row),
    ConsoleError ''Supabase error:'' (Value (Some ''permission denied for table class_sessions'')),
    ConsoleError ''Error creating class session:''
      (Value (Some ''Database error: permission denied for table class_sessions'')),
    SetMessage \<lparr>text_msg =
        ''Failed to create class session: Database error: permission denied for table class_sessions'',
      type_msg = ''error''\<rparr>,
    SetSubmitting False]"
  by (simp add: submit_defs sample_defs)

subsection \<open>The paths through \<open>fetchCourses\<close>\<close>

lemma fetchCourses_faculty:
  assumes "user E = Some u" "role u = ''faculty''"
  shows "fetchCourses E = try_catch_finally (fetch_try E u) fetch_catch [SetLoading False]"
  using assms by (simp add: fetchCourses_def)

lemma fetchCourses_first_failed:
  assumes "user E = Some u" "role u = ''faculty''"
    and "select_assignments E (assignments_query u) = Rejected v \<or>
         (\<exists>d m. select_assignments E (assignments_query u) = Resolved d (Some m) \<and>
            v = Value (Some m))"
  shows "fetchCourses E =
    [SetLoading True, Query (assignments_query u),
     ConsoleError ''Error fetching courses:'' v, SetMessage load_failed_msg, SetLoading False]"
  using assms(3)
  by (auto simp: fetchCourses_faculty [OF assms(1,2)] fetch_try_def fetch_catch_def
      try_catch_finally_simps)

lemma fetchCourses_not_assigned:
  assumes "user E = Some u" "role u = ''faculty''"
    and "select_assignments E (assignments_query u) = Resolved None None \<or>
         select_assignments E (assignments_query u) = Resolved (Some []) None"
  shows "fetchCourses E =
    [SetLoading True, Query (assignments_query u), SetMessage not_assigned_msg,
     SetLoading False, SetLoading False]"
  using assms(3)
  by (auto simp: fetchCourses_faculty [OF assms(1,2)] fetch_try_def try_catch_finally_simps)

lemma fetchCourses_assigned:
  assumes "user E = Some u" "role u = ''faculty''"
    and "select_assignments E (assignments_query u) = Resolved (Some (a # as)) None"
  shows "fetchCourses E =
    try_catch_finally
      (case fetch_details E (a # as) of
         (es, c) \<Rightarrow> ([SetLoading True, Query (assignments_query u)] @ es, c))
      fetch_catch [SetLoading False]"
  using assms(3)
  by (simp add: fetchCourses_faculty [OF assms(1,2)] fetch_try_def)

lemma fetchCourses_second_failed:
  assumes "user E = Some u" "role u = ''faculty''"
    and "select_assignments E (assignments_query u) = Resolved (Some (a # as)) None"
    and "select_courses E (courses_query (map course_id_assignment (a # as))) = Rejected v \<or>
         (\<exists>d m. select_courses E (courses_query (map course_id_assignment (a # as))) =
            Resolved d (Some m) \<and> v = Value (Some m))"
  shows "fetchCourses E =
    [SetLoading True, Query (assignments_query u),
     Query (courses_query (map course_id_assignment (a # as))),
     ConsoleError ''Error fetching courses:'' v, SetMessage load_failed_msg, SetLoading False]"
  using assms(4)
  by (auto simp: fetchCourses_assigned [OF assms(1-3)] fetch_details_def fetch_catch_def
      try_catch_finally_simps)

lemma fetchCourses_loaded:
  assumes "user E = Some u" "role u = ''faculty''"
    and "select_assignments E (assignments_query u) = Resolved (Some (a # as)) None"
    and "select_courses E (courses_query (map course_id_assignment (a # as))) =
           Resolved (Some (c # cs)) None"
  shows "fetchCourses E =
    [SetLoading True, Query (assignments_query u),
     Query (courses_query (map course_id_assignment (a # as))),
     SetCourses (c # cs), SetCourseId (id_course c), SetLoading False]"
  using assms(4)
  by (simp add: fetchCourses_assigned [OF assms(1-3)] fetch_details_def
      try_catch_finally_simps)

lemma fetchCourses_no_courses:
  assumes "user E = Some u" "role u = ''faculty''"
    and "select_assignments E (assignments_query u) = Resolved (Some (a # as)) None"
    and "select_courses E (courses_query (map course_id_assignment (a # as))) =
           Resolved None None \<or>
         select_courses E (courses_query (map course_id_assignment (a # as))) =
           Resolved (Some []) None"
  shows "fetchCourses E =
    [SetLoading True, Query (assignments_query u),
     Query (courses_query (map course_id_assignment (a # as))),
     SetMessage no_courses_msg, SetLoading False]"
  using assms(4)
  by (auto simp: fetchCourses_assigned [OF assms(1-3)] fetch_details_def
      try_catch_finally_simps)

lemmas fetch_defs =
  fetchCourses_def fetch_try_def fetch_details_def fetch_catch_def try_catch_finally_def
  assignments_query_def courses_query_def

text \<open>The form is on the page only for a faculty user.\<close>

lemma form_shown:
  assumes "render E st = FormView b"
  obtains u where "user E = Some u" "role u = ''faculty''"
  using assms by (auto simp: render_def split: option.splits if_splits)

subsection \<open>Claims about \<open>handleSubmit\<close>\<close>

text \<open>
  Claim C1. A submission is an event of the form, and the form exists only in the last
  branch of the component (lines 190 to 228): \<open>render\<close> is \<open>FormView\<close>, which requires a
  faculty user. For every such submission with the six required fields non-empty and
  both combined strings \<open>startDate + "T" + startTime\<close> and \<open>endDate + "T" + endTime\<close>
  parsing to the instants \<open>s\<close> and \<open>e\<close>: if \<open>e \<le> s\<close>, \<open>handleSubmit\<close> sets the message
  "End time must be after start time" and sends no query; and an insert is attempted
  exactly when \<open>s < e\<close>. Line 131 compares the dates read back from the two ISO strings;
  the runtime reads an ISO string back as the instant it was written from, as
  ECMAScript specifies for \<open>Date.parse(x.toISOString())\<close>.
\<close>

theorem C1_end_after_start:
  assumes "render E st = FormView b"
    and "courseId (formData st) \<noteq> []" and "title (formData st) \<noteq> []"
    and "startDate (formData st) \<noteq> []" and "startTime (formData st) \<noteq> []"
    and "endDate (formData st) \<noteq> []" and "endTime (formData st) \<noteq> []"
    and "newDate E (startDate (formData st) @ ''T'' @ startTime (formData st)) = Some s"
    and "newDate E (endDate (formData st) @ ''T'' @ endTime (formData st)) = Some e"
    and "newDate E (toISOString E s) = Some s"
    and "newDate E (toISOString E e) = Some e"
  shows "(e \<le> s \<longrightarrow>
            message (run st (handleSubmit E st)) =
              \<lparr>text_msg = ''End time must be after start time'', type_msg = ''error''\<rparr> \<and>
            queries_of (handleSubmit E st) = []) \<and>
         ((\<exists>t row. Query (Insert t row) \<in> set (handleSubmit E st)) \<longleftrightarrow> s < e)"
proof -
  from assms(1) obtain u where fac: "user E = Some u" "role u = ''faculty''"
    by (rule form_shown)
  have filled: "\<not> missing_required (formData st)"
    using assms(2-7) by (simp add: missing_required_def)
  have ps: "newDate E (start_string (formData st)) = Some s"
    using assms(8) by (simp add: start_string_def)
  have pe: "newDate E (end_string (formData st)) = Some e"
    using assms(9) by (simp add: end_string_def)
  have cmp: "date_le (newDate E (toISOString E e)) (newDate E (toISOString E s)) \<longleftrightarrow> e \<le> s"
    using assms(10,11) by (simp add: date_le_def)
  show ?thesis
  proof (cases "e \<le> s")
    case True
    with cmp have "date_le (newDate E (toISOString E e)) (newDate E (toISOString E s))"
      by simp
    from handleSubmit_bad_order [OF fac filled ps pe this] True
    show ?thesis
      by (simp add: run_def end_before_start_msg_def)
  next
    case False
    with cmp have ok: "\<not> date_le (newDate E (toISOString E e)) (newDate E (toISOString E s))"
      by simp
    have "Insert ''class_sessions''
            (classData E u (formData st) (toISOString E s) (toISOString E e))
          \<in> set (queries_of (handleSubmit E st))"
      by (simp add: handleSubmit_valid_queries [OF fac filled ps pe ok])
    then have "\<exists>t row. Query (Insert t row) \<in> set (handleSubmit E st)"
      unfolding set_queries_of by blast
    with False show ?thesis by simp
  qed
qed

theorem C1_end_after_start_witness:
  "render (sample_env (Some faculty_user) (Rejected (Value None)) (Rejected (Value None))
       (Rejected (Value None)))
     (sample_state reversed_form) = FormView False \<and>
   message (run (sample_state reversed_form)
     (handleSubmit
        (sample_env (Some faculty_user) (Rejected (Value None)) (Rejected (Value None))
           (Rejected (Value None)))
        (sample_state reversed_form))) =
     \<lparr>text_msg = ''End time must be after start time'', type_msg = ''error''\<rparr> \<and>
   queries_of
     (handleSubmit
        (sample_env (Some faculty_user) (Rejected (Value None)) (Rejected (Value None))
           (Rejected (Value None)))
        (sample_state reversed_form)) = [] \<and>
   (\<exists>t row. Query (Insert t row) \<in> set
     (handleSubmit
        (sample_env (Some faculty_user) (Rejected (Value None)) (Rejected (Value None))
           (Rejected (Value None)))
        (sample_state sample_form)))"
proof -
  let ?E = "sample_env (Some faculty_user) (Rejected (Value None)) (Rejected (Value None))
           (Rejected (Value None))"
  let ?rev = "sample_state reversed_form" and ?fwd = "sample_state sample_form"
  have shown: "render ?E ?rev = FormView False" "render ?E ?fwd = FormView False"
    by (simp_all add: render_def submit_disabled_def sample_env_def faculty_user_def
        sample_state_def)
  have iso: "newDate ?E (toISOString ?E 1740823200000) = Some 1740823200000"
    "newDate ?E (toISOString ?E 1740828600000) = Some 1740828600000"
    by (simp_all add: sample_env_def sample_newDate_def sample_toISOString_def)
  have rev: "(1740823200000 \<le> (1740828600000 :: int) \<longrightarrow>
            message (run ?rev (handleSubmit ?E ?rev)) =
              \<lparr>text_msg = ''End time must be after start time'', type_msg = ''error''\<rparr> \<and>
            queries_of (handleSubmit ?E ?rev) = []) \<and>
         ((\<exists>t row. Query (Insert t row) \<in> set (handleSubmit ?E ?rev)) \<longleftrightarrow>
            (1740828600000 :: int) < 1740823200000)"
    by (rule C1_end_after_start [OF shown(1) _ _ _ _ _ _ _ _ iso(2) iso(1)])
      (simp_all add: sample_state_def reversed_form_def sample_env_def sample_newDate_def)
  have fwd: "(1740828600000 \<le> (1740823200000 :: int) \<longrightarrow>
            message (run ?fwd (handleSubmit ?E ?fwd)) =
              \<lparr>text_msg = ''End time must be after start time'', type_msg = ''error''\<rparr> \<and>
            queries_of (handleSubmit ?E ?fwd) = []) \<and>
         ((\<exists>t row. Query (Insert t row) \<in> set (handleSubmit ?E ?fwd)) \<longleftrightarrow>
            (1740823200000 :: int) < 1740828600000)"
    by (rule C1_end_after_start [OF shown(2) _ _ _ _ _ _ _ _ iso(1) iso(2)])
      (simp_all add: sample_state_def sample_form_def sample_env_def sample_newDate_def)
  from shown(1) rev fwd show ?thesis by simp
qed

text \<open>
  Claim C2. When the permission check and the three validations pass (the user is a
  faculty user, the six required fields are non-empty, both combined strings parse, and
  the comparison of line 131 is false), \<open>handleSubmit\<close> sends exactly one query: an
  insert into \<open>class_sessions\<close> of one row with \<open>course_id\<close>, \<open>title\<close> taken from the form,
  \<open>description\<close> and \<open>meeting_link\<close> taken from the form or null when empty, \<open>start_time\<close>
  and \<open>end_time\<close> the ISO strings of the two dates, \<open>created_by\<close> the user's id and
  \<open>reminder_sent\<close> false (the row carries \<open>updated_at\<close>, the ISO string of the current
  time, as well).
\<close>

theorem C2_single_insert:
  assumes "user E = Some u" and "role u = ''faculty''"
    and "courseId (formData st) \<noteq> []" and "title (formData st) \<noteq> []"
    and "startDate (formData st) \<noteq> []" and "startTime (formData st) \<noteq> []"
    and "endDate (formData st) \<noteq> []" and "endTime (formData st) \<noteq> []"
    and "newDate E (startDate (formData st) @ ''T'' @ startTime (formData st)) = Some s"
    and "newDate E (endDate (formData st) @ ''T'' @ endTime (formData st)) = Some e"
    and "\<not> date_le (newDate E (toISOString E e)) (newDate E (toISOString E s))"
  shows "queries_of (handleSubmit E st) =
           [Insert ''class_sessions''
              \<lparr>course_id = courseId (formData st),
               title_row = title (formData st),
               description_row =
                 (if description (formData st) = [] then None
                  else Some (description (formData st))),
               start_time = toISOString E s,
               end_time = toISOString E e,
               meeting_link =
                 (if meetingLink (formData st) = [] then None
                  else Some (meetingLink (formData st))),
               created_by = id_user u,
               reminder_sent = False,
               updated_at = toISOString E (now E)\<rparr>]"
proof -
  have filled: "\<not> missing_required (formData st)"
    using assms(3-8) by (simp add: missing_required_def)
  have ps: "newDate E (start_string (formData st)) = Some s"
    using assms(9) by (simp add: start_string_def)
  have pe: "newDate E (end_string (formData st)) = Some e"
    using assms(10) by (simp add: end_string_def)
  show ?thesis
    by (simp add: handleSubmit_valid_queries [OF assms(1,2) filled ps pe assms(11)]
        classData_def or_null_def)
qed

theorem C2_single_insert_witness:
  "queries_of
     (handleSubmit
        (sample_env (Some faculty_user) (Rejected (Value None)) (Rejected (Value None))
           (Resolved (Some [sample_row]) None))
        (sample_state sample_form)) =
   [Insert ''class_sessions''
      \<lparr>course_id = ''c-1'', title_row = ''Lecture 1'', description_row = None,
       start_time = ''2025-03-01T10:00:00.000Z'', end_time = ''2025-03-01T11:30:00.000Z'',
       meeting_link = Some ''https://meet.example/abc'', created_by = ''u-17'',
       reminder_sent = False, updated_at = ''2025-03-01T09:00:00.000Z''\<rparr>]"
proof -
  let ?E = "sample_env (Some faculty_user) (Rejected (Value None)) (Rejected (Value None))
           (Resolved (Some [sample_row]) None)"
  let ?st = "sample_state sample_form"
  have u: "user ?E = Some faculty_user" by (simp add: sample_env_def)
  have r: "role faculty_user = ''faculty''" by (simp add: faculty_user_def)
  have ps: "newDate ?E (startDate (formData ?st) @ ''T'' @ startTime (formData ?st)) =
      Some 1740823200000"
    by (simp add: sample_defs)
  have pe: "newDate ?E (endDate (formData ?st) @ ''T'' @ endTime (formData ?st)) =
      Some 1740828600000"
    by (simp add: sample_defs)
  have ord: "\<not> date_le (newDate ?E (toISOString ?E 1740828600000))
      (newDate ?E (toISOString ?E 1740823200000))"
    by (simp add: sample_defs date_le_def)
  have "queries_of (handleSubmit ?E ?st) =
           [Insert ''class_sessions''
              \<lparr>course_id = courseId (formData ?st),
               title_row = title (formData ?st),
               description_row =
                 (if description (formData ?st) = [] then None
                  else Some (description (formData ?st))),
               start_time = toISOString ?E 1740823200000,
               end_time = toISOString ?E 1740828600000,
               meeting_link =
                 (if meetingLink (formData ?st) = [] then None
                  else Some (meetingLink (formData ?st))),
               created_by = id_user faculty_user,
               reminder_sent = False,
               updated_at = toISOString ?E (now ?E)\<rparr>]"
    by (rule C2_single_insert [OF u r _ _ _ _ _ _ ps pe ord])
      (simp_all add: sample_state_def sample_form_def)
  then show ?thesis by (simp add: sample_defs)
qed

text \<open>
  Claim C3. When there is no current user, or the user's role is not \<open>faculty\<close>,
  \<open>handleSubmit\<close> sets the message "You don't have permission to perform this action"
  (of type error) and returns: it sends no query and leaves the form data as it was.
\<close>

theorem C3_permission_denied:
  assumes "user E = None \<or> (\<exists>u. user E = Some u \<and> role u \<noteq> ''faculty'')"
  shows "handleSubmit E st =
           [PreventDefault,
            SetMessage \<lparr>text_msg = ''You don't have permission to perform this action'',
                        type_msg = ''error''\<rparr>] \<and>
         message (run st (handleSubmit E st)) =
           \<lparr>text_msg = ''You don't have permission to perform this action'',
            type_msg = ''error''\<rparr> \<and>
         queries_of (handleSubmit E st) = [] \<and>
         formData (run st (handleSubmit E st)) = formData st"
  by (simp add: handleSubmit_denied [OF assms] permission_msg_def run_def)

theorem C3_permission_denied_witness:
  "user (sample_env None (Rejected (Value None)) (Rejected (Value None)) (Rejected (Value None))) = None \<and>
   handleSubmit (sample_env None (Rejected (Value None)) (Rejected (Value None)) (Rejected (Value None)))
       (sample_state sample_form) =
     [PreventDefault,
      SetMessage \<lparr>text_msg = ''You don't have permission to perform this action'',
                  type_msg = ''error''\<rparr>] \<and>
   role student_user = ''student'' \<and>
   message (run (sample_state sample_form)
              (handleSubmit
                 (sample_env (Some student_user) (Rejected (Value None)) (Rejected (Value None)) (Rejected (Value None)))
                 (sample_state sample_form))) =
     \<lparr>text_msg = ''You don't have permission to perform this action'', type_msg = ''error''\<rparr> \<and>
   formData (run (sample_state sample_form)
              (handleSubmit
                 (sample_env (Some student_user) (Rejected (Value None)) (Rejected (Value None)) (Rejected (Value None)))
                 (sample_state sample_form))) = sample_form"
proof -
  let ?E = "sample_env None (Rejected (Value None)) (Rejected (Value None)) (Rejected (Value None))"
  let ?S = "sample_env (Some student_user) (Rejected (Value None)) (Rejected (Value None)) (Rejected (Value None))"
  have a: "user ?E = None \<or> (\<exists>u. user ?E = Some u \<and> role u \<noteq> ''faculty'')"
    by (simp add: sample_env_def)
  have b: "user ?S = None \<or> (\<exists>u. user ?S = Some u \<and> role u \<noteq> ''faculty'')"
    by (simp add: sample_env_def student_user_def)
  show ?thesis
    using C3_permission_denied [OF a, of "sample_state sample_form"]
      C3_permission_denied [OF b, of "sample_state sample_form"]
    by (simp add: sample_env_def student_user_def sample_state_def run_def)
qed

text \<open>
  Claim C4. For a faculty user, when one of the required fields \<open>courseId\<close>, \<open>title\<close>,
  \<open>startDate\<close>, \<open>startTime\<close>, \<open>endDate\<close>, \<open>endTime\<close> is the empty string,
  \<open>handleSubmit\<close> sets the message "Please fill in all required fields", leaves
  \<open>submitting\<close> false and sends no insert (indeed no query at all).
\<close>

theorem C4_required_fields:
  assumes "user E = Some u" and "role u = ''faculty''"
    and "courseId (formData st) = [] \<or> title (formData st) = [] \<or>
         startDate (formData st) = [] \<or> startTime (formData st) = [] \<or>
         endDate (formData st) = [] \<or> endTime (formData st) = []"
  shows "message (run st (handleSubmit E st)) =
           \<lparr>text_msg = ''Please fill in all required fields'', type_msg = ''error''\<rparr> \<and>
         submitting (run st (handleSubmit E st)) = False \<and>
         queries_of (handleSubmit E st) = []"
proof -
  from assms(3) have "missing_required (formData st)"
    by (simp add: missing_required_def)
  with assms(1,2) have "handleSubmit E st =
      [PreventDefault, SetSubmitting True, SetMessage empty_msg, SetMessage required_msg,
       SetSubmitting False, SetSubmitting False]"
    by (rule handleSubmit_missing)
  then show ?thesis
    by (simp add: run_def required_msg_def)
qed

theorem C4_required_fields_witness:
  "title (formData (sample_state (sample_form\<lparr>title := ''''\<rparr>))) = [] \<and>
   message (run (sample_state (sample_form\<lparr>title := ''''\<rparr>))
     (handleSubmit (sample_env (Some faculty_user) (Rejected (Value None)) (Rejected (Value None)) (Rejected (Value None)))
        (sample_state (sample_form\<lparr>title := ''''\<rparr>)))) =
     \<lparr>text_msg = ''Please fill in all required fields'', type_msg = ''error''\<rparr> \<and>
   submitting (run (sample_state (sample_form\<lparr>title := ''''\<rparr>))
     (handleSubmit (sample_env (Some faculty_user) (Rejected (Value None)) (Rejected (Value None)) (Rejected (Value None)))
        (sample_state (sample_form\<lparr>title := ''''\<rparr>)))) = False \<and>
   queries_of
     (handleSubmit (sample_env (Some faculty_user) (Rejected (Value None)) (Rejected (Value None)) (Rejected (Value None)))
        (sample_state (sample_form\<lparr>title := ''''\<rparr>))) = []"
proof -
  let ?E = "sample_env (Some faculty_user) (Rejected (Value None)) (Rejected (Value None)) (Rejected (Value None))"
  let ?st = "sample_state (sample_form\<lparr>title := ''''\<rparr>)"
  have u: "user ?E = Some faculty_user" by (simp add: sample_env_def)
  have r: "role faculty_user = ''faculty''" by (simp add: faculty_user_def)
  have f: "courseId (formData ?st) = [] \<or> title (formData ?st) = [] \<or>
         startDate (formData ?st) = [] \<or> startTime (formData ?st) = [] \<or>
         endDate (formData ?st) = [] \<or> endTime (formData ?st) = []"
    by (simp add: sample_state_def)
  show ?thesis
    using C4_required_fields [OF u r f] by (simp add: sample_state_def)
qed

text \<open>
  Claim C6. When the insert was sent and the data store answered it without error and
  with at least one row, \<open>handleSubmit\<close> sets the message
  "Class session created successfully" and afterwards starts the timer (2000 ms) whose
  action is \<open>router.push("/dashboard/faculty/classes")\<close>. Conversely a timer is started on
  no other path: whenever one is started, the insert was answered with a row and the
  final message has type success.
\<close>

theorem C6_success_then_redirect:
  "(Query (Insert t row) \<in> set (handleSubmit E st) \<and>
    insert_class E (Insert t row) = Resolved (Some (r # rs)) None \<longrightarrow>
      handleSubmit E st =
        [PreventDefault, SetSubmitting True, SetMessage \<lparr>text_msg = '''', type_msg = ''''\<rparr>,
         Query (Insert t row),
         SetMessage \<lparr>text_msg = ''Class session created successfully'', type_msg = ''success''\<rparr>,
         SetFormData (reset_form (formData st)),
         SetTimeout 2000 (RouterPush ''/dashboard/faculty/classes''),
         SetSubmitting False] \<and>
      message (run st (handleSubmit E st)) =
        \<lparr>text_msg = ''Class session created successfully'', type_msg = ''success''\<rparr>) \<and>
   (SetTimeout n a \<in> set (handleSubmit E st) \<longrightarrow>
      (\<exists>row' r' rs'. Query (Insert ''class_sessions'' row') \<in> set (handleSubmit E st) \<and>
         insert_class E (Insert ''class_sessions'' row') = Resolved (Some (r' # rs')) None) \<and>
      type_msg (message (run st (handleSubmit E st))) = ''success'')"
proof (intro conjI impI)
  assume a: "Query (Insert t row) \<in> set (handleSubmit E st) \<and>
    insert_class E (Insert t row) = Resolved (Some (r # rs)) None"
  then have q: "Query (Insert t row) \<in> set (handleSubmit E st)"
    and ok: "insert_class E (Insert t row) = Resolved (Some (r # rs)) None"
    by simp_all
  have tr: "handleSubmit E st =
    [PreventDefault, SetSubmitting True, SetMessage empty_msg,
     Query (Insert t row), SetMessage success_msg,
     SetFormData (reset_form (formData st)), redirect, SetSubmitting False]"
    by (rule insert_success_trace [OF q ok])
  then show "handleSubmit E st =
        [PreventDefault, SetSubmitting True, SetMessage \<lparr>text_msg = '''', type_msg = ''''\<rparr>,
         Query (Insert t row),
         SetMessage \<lparr>text_msg = ''Class session created successfully'', type_msg = ''success''\<rparr>,
         SetFormData (reset_form (formData st)),
         SetTimeout 2000 (RouterPush ''/dashboard/faculty/classes''),
         SetSubmitting False]"
    by (simp add: empty_msg_def success_msg_def redirect_def)
  from tr show "message (run st (handleSubmit E st)) =
        \<lparr>text_msg = ''Class session created successfully'', type_msg = ''success''\<rparr>"
    by (simp add: run_def success_msg_def redirect_def)
next
  assume t: "SetTimeout n a \<in> set (handleSubmit E st)"
  then obtain row' r' rs' where
    q: "Query (Insert ''class_sessions'' row') \<in> set (handleSubmit E st)"
    and ok: "insert_class E (Insert ''class_sessions'' row') = Resolved (Some (r' # rs')) None"
    using timer_only_on_success by blast
  then show "\<exists>row' r' rs'. Query (Insert ''class_sessions'' row') \<in> set (handleSubmit E st) \<and>
         insert_class E (Insert ''class_sessions'' row') = Resolved (Some (r' # rs')) None"
    by blast
  from insert_success_trace [OF q ok]
  show "type_msg (message (run st (handleSubmit E st))) = ''success''"
    by (simp add: run_def success_msg_def redirect_def)
qed

theorem C6_success_then_redirect_witness:
  "handleSubmit
     (sample_env (Some faculty_user) (Rejected (Value None)) (Rejected (Value None))
        (Resolved (Some [sample_row]) None))
     (sample_state sample_form) =
   [PreventDefault, SetSubmitting True, SetMessage \<lparr>text_msg = '''', type_msg = ''''\<rparr>,
    Query (Insert ''class_sessions'' sample_row),
    SetMessage \<lparr>text_msg = ''Class session created successfully'', type_msg = ''success''\<rparr>,
    SetFormData (reset_form sample_form),
    SetTimeout 2000 (RouterPush ''/dashboard/faculty/classes''),
    SetSubmitting False] \<and>
   message (run (sample_state sample_form)
     (handleSubmit
       (sample_env (Some faculty_user) (Rejected (Value None)) (Rejected (Value None))
          (Resolved (Some [sample_row]) None))
       (sample_state sample_form))) =
     \<lparr>text_msg = ''Class session created successfully'', type_msg = ''success''\<rparr> \<and>
   SetTimeout 2000 (RouterPush ''/dashboard/faculty/classes'') \<in> set
     (handleSubmit
       (sample_env (Some faculty_user) (Rejected (Value None)) (Rejected (Value None))
          (Resolved (Some [sample_row]) None))
       (sample_state sample_form))"
proof -
  let ?E = "sample_env (Some faculty_user) (Rejected (Value None)) (Rejected (Value None))
          (Resolved (Some [sample_row]) None)"
  let ?st = "sample_state sample_form"
  have q: "Query (Insert ''class_sessions'' sample_row) \<in> set (handleSubmit ?E ?st)"
    by (simp add: sample_submit_success)
  have ok: "insert_class ?E (Insert ''class_sessions'' sample_row) =
      Resolved (Some (sample_row # [])) None"
    by (simp add: sample_env_def)
  have tm: "SetTimeout 2000 (RouterPush ''/dashboard/faculty/classes'') \<in> set (handleSubmit ?E ?st)"
    by (simp add: sample_submit_success)
  from C6_success_then_redirect [where t = "''class_sessions''" and row = sample_row
      and E = ?E and st = ?st and r = sample_row and rs = "[]" and n = 2000
      and a = "RouterPush ''/dashboard/faculty/classes''"] q ok tm
  show ?thesis by (simp add: sample_state_def run_def)
qed



text \<open>
  On every other failure of the insert (a rejection with any other value, an answer
  that carries an error, or an answer with no rows) all that follows the query is
  console output, one message of the form "Failed to create class session: ..."
  (type error) and \<open>setSubmitting(false)\<close>. The state after the handler is the state before
  it with only \<open>message\<close> and \<open>submitting\<close> set; in particular the form data is
  unchanged, and no timer (hence no navigation) is started.
\<close>

lemma handleSubmit_failure_recovery:
  assumes "Query (Insert t row) \<in> set (handleSubmit E st)"
    and "(\<exists>m. insert_class E (Insert t row) = Rejected (Value m)) \<or>
         (\<exists>d m. insert_class E (Insert t row) = Resolved d (Some m)) \<or>
         insert_class E (Insert t row) = Resolved None None \<or>
         insert_class E (Insert t row) = Resolved (Some []) None"
  shows "(\<exists>logs detail.
            handleSubmit E st =
              [PreventDefault, SetSubmitting True,
               SetMessage \<lparr>text_msg = '''', type_msg = ''''\<rparr>, Query (Insert t row)] @ logs @
              [SetMessage \<lparr>text_msg = ''Failed to create class session: '' @ detail,
                           type_msg = ''error''\<rparr>,
               SetSubmitting False] \<and>
            (\<forall>x \<in> set logs. \<exists>l v. x = ConsoleError l v) \<and>
            run st (handleSubmit E st) =
              st\<lparr>submitting := False,
                 message := \<lparr>text_msg = ''Failed to create class session: '' @ detail,
                             type_msg = ''error''\<rparr>\<rparr>) \<and>
         formData (run st (handleSubmit E st)) = formData st \<and>
         submitting (run st (handleSubmit E st)) = False \<and>
         (\<forall>n a. SetTimeout n a \<notin> set (handleSubmit E st))"
proof -
  from insert_failure_trace [OF assms] obtain logs m where
    tr: "handleSubmit E st =
      [PreventDefault, SetSubmitting True, SetMessage empty_msg, Query (Insert t row)] @ logs @
      [SetMessage \<lparr>text_msg = failure_text m, type_msg = ''error''\<rparr>, SetSubmitting False]"
    and logs: "\<forall>x \<in> set logs. \<exists>l v. x = ConsoleError l v"
    by blast
  obtain detail where d: "failure_text m = ''Failed to create class session: '' @ detail"
    unfolding failure_text_def by blast
  have final: "run st (handleSubmit E st) =
      st\<lparr>submitting := False,
         message := \<lparr>text_msg = ''Failed to create class session: '' @ detail,
                     type_msg = ''error''\<rparr>\<rparr>"
    unfolding tr run_append run_logs [OF logs] by (simp add: run_def d)
  have no_timer: "\<forall>n a. SetTimeout n a \<notin> set (handleSubmit E st)"
    unfolding tr using logs by auto
  have "handleSubmit E st =
      [PreventDefault, SetSubmitting True,
       SetMessage \<lparr>text_msg = '''', type_msg = ''''\<rparr>, Query (Insert t row)] @ logs @
      [SetMessage \<lparr>text_msg = ''Failed to create class session: '' @ detail,
                   type_msg = ''error''\<rparr>,
       SetSubmitting False]"
    using tr by (simp add: empty_msg_def d)
  with logs final have first: "\<exists>logs detail.
            handleSubmit E st =
              [PreventDefault, SetSubmitting True,
               SetMessage \<lparr>text_msg = '''', type_msg = ''''\<rparr>, Query (Insert t row)] @ logs @
              [SetMessage \<lparr>text_msg = ''Failed to create class session: '' @ detail,
                           type_msg = ''error''\<rparr>,
               SetSubmitting False] \<and>
            (\<forall>x \<in> set logs. \<exists>l v. x = ConsoleError l v) \<and>
            run st (handleSubmit E st) =
              st\<lparr>submitting := False,
                 message := \<lparr>text_msg = ''Failed to create class session: '' @ detail,
                             type_msg = ''error''\<rparr>\<rparr>"
    by blast
  from final have "formData (run st (handleSubmit E st)) = formData st"
    and "submitting (run st (handleSubmit E st)) = False"
    by simp_all
  with first no_timer show ?thesis by blast
qed

text \<open>
  Claim C8. After a successful submission every form field is the empty string, except
  \<open>courseId\<close>, which keeps the submitted value.
\<close>

theorem C8_form_reset:
  assumes "Query (Insert t row) \<in> set (handleSubmit E st)"
    and "insert_class E (Insert t row) = Resolved (Some (r # rs)) None"
  shows "formData (run st (handleSubmit E st)) =
           \<lparr>courseId = courseId (formData st), title = '''', description = '''',
            startDate = '''', startTime = '''', endDate = '''', endTime = '''',
            meetingLink = ''''\<rparr>"
  by (simp add: insert_success_trace [OF assms] run_def reset_form_def redirect_def)

theorem C8_form_reset_witness:
  "formData (run (sample_state sample_form)
     (handleSubmit
       (sample_env (Some faculty_user) (Rejected (Value None)) (Rejected (Value None))
          (Resolved (Some [sample_row]) None))
       (sample_state sample_form))) =
     \<lparr>courseId = ''c-1'', title = '''', description = '''', startDate = '''',
      startTime = '''', endDate = '''', endTime = '''', meetingLink = ''''\<rparr>"
proof -
  let ?E = "sample_env (Some faculty_user) (Rejected (Value None)) (Rejected (Value None))
          (Resolved (Some [sample_row]) None)"
  let ?st = "sample_state sample_form"
  have q: "Query (Insert ''class_sessions'' sample_row) \<in> set (handleSubmit ?E ?st)"
    by (simp add: sample_submit_success)
  have ok: "insert_class ?E (Insert ''class_sessions'' sample_row) =
      Resolved (Some (sample_row # [])) None"
    by (simp add: sample_env_def)
  from C8_form_reset [OF q ok] show ?thesis
    by (simp add: sample_state_def sample_form_def)
qed

text \<open>
  Claim C9. In the row of every insert that \<open>handleSubmit\<close> sends (successful or not),
  \<open>description\<close> and \<open>meeting_link\<close> are null when the form field is the empty string
  and the form field's value otherwise; neither is ever the empty string.
\<close>

theorem C9_optional_fields_null:
  assumes "Query (Insert t row) \<in> set (handleSubmit E st)"
  shows "(description (formData st) = [] \<longrightarrow> description_row row = None) \<and>
         (meetingLink (formData st) = [] \<longrightarrow> meeting_link row = None) \<and>
         description_row row \<noteq> Some [] \<and> meeting_link row \<noteq> Some [] \<and>
         (description (formData st) \<noteq> [] \<longrightarrow>
            description_row row = Some (description (formData st))) \<and>
         (meetingLink (formData st) \<noteq> [] \<longrightarrow>
            meeting_link row = Some (meetingLink (formData st)))"
proof -
  from assms obtain u s e where
    "row = classData E u (formData st) (toISOString E s) (toISOString E e)"
    by (rule insert_issued)
  then show ?thesis by (simp add: classData_def or_null_def)
qed

theorem C9_optional_fields_null_witness:
  "description (formData (sample_state sample_form)) = [] \<and>
   description_row sample_row = None \<and>
   meeting_link sample_row = Some ''https://meet.example/abc'' \<and>
   Query (Insert ''class_sessions'' sample_row) \<in> set
     (handleSubmit
       (sample_env (Some faculty_user) (Rejected (Value None)) (Rejected (Value None))
          (Resolved (Some [sample_row]) None))
       (sample_state sample_form))"
proof -
  let ?E = "sample_env (Some faculty_user) (Rejected (Value None)) (Rejected (Value None))
          (Resolved (Some [sample_row]) None)"
  let ?st = "sample_state sample_form"
  have q: "Query (Insert ''class_sessions'' sample_row) \<in> set (handleSubmit ?E ?st)"
    by (simp add: sample_submit_success)
  from C9_optional_fields_null [OF q] q show ?thesis
    by (simp add: sample_state_def sample_form_def)
qed

subsection \<open>Claims about \<open>fetchCourses\<close>\<close>

text \<open>
  Claim C5. For a faculty user \<open>fetchCourses\<close> first selects \<open>course_id\<close> from
  \<open>teaching_assignments\<close> where \<open>user_id\<close> is the user's id. When that read resolves
  without error to a non-empty list of rows, a second read follows: all columns of
  \<open>courses\<close> whose \<open>id\<close> is among the \<open>course_id\<close>s of those rows, ordered by \<open>code\<close>; in
  every other case the first read is the only query. \<open>setCourses\<close> is called only with
  the rows the second read resolved to, and the \<open>courses\<close> state afterwards is either
  what it was or the argument of that call.
\<close>

theorem C5_two_reads:
  assumes "user E = Some u" and "role u = ''faculty''"
  shows "(\<forall>rows. rows \<noteq> [] \<and>
            select_assignments E
              (Select ''teaching_assignments'' ''course_id'' (Eq ''user_id'' (id_user u)) None) =
              Resolved (Some rows) None \<longrightarrow>
            queries_of (fetchCourses E) =
              [Select ''teaching_assignments'' ''course_id'' (Eq ''user_id'' (id_user u)) None,
               Select ''courses'' ''*'' (In ''id'' (map course_id_assignment rows))
                 (Some ''code'')]) \<and>
         ((\<nexists>rows. rows \<noteq> [] \<and>
            select_assignments E
              (Select ''teaching_assignments'' ''course_id'' (Eq ''user_id'' (id_user u)) None) =
              Resolved (Some rows) None) \<longrightarrow>
            queries_of (fetchCourses E) =
              [Select ''teaching_assignments'' ''course_id'' (Eq ''user_id'' (id_user u)) None]) \<and>
         (\<forall>cs. SetCourses cs \<in> set (fetchCourses E) \<longrightarrow>
            (\<exists>rows. rows \<noteq> [] \<and>
               select_assignments E
                 (Select ''teaching_assignments'' ''course_id'' (Eq ''user_id'' (id_user u)) None) =
                 Resolved (Some rows) None \<and>
               select_courses E
                 (Select ''courses'' ''*'' (In ''id'' (map course_id_assignment rows))
                    (Some ''code'')) =
                 Resolved (Some cs) None)) \<and>
         (courses (run st (fetchCourses E)) = courses st \<or>
          SetCourses (courses (run st (fetchCourses E))) \<in> set (fetchCourses E))"
proof -
  let ?q1 = "Select ''teaching_assignments'' ''course_id'' (Eq ''user_id'' (id_user u)) None"
  let ?q2 = "\<lambda>rows. Select ''courses'' ''*'' (In ''id'' (map course_id_assignment rows))
                 (Some ''code'')"
  let ?P = "\<lambda>x. (\<forall>rows. rows \<noteq> [] \<and> x = Resolved (Some rows) None \<longrightarrow>
            queries_of (fetchCourses E) = [?q1, ?q2 rows]) \<and>
         ((\<nexists>rows. rows \<noteq> [] \<and> x = Resolved (Some rows) None) \<longrightarrow>
            queries_of (fetchCourses E) = [?q1]) \<and>
         (\<forall>cs. SetCourses cs \<in> set (fetchCourses E) \<longrightarrow>
            (\<exists>rows. rows \<noteq> [] \<and> x = Resolved (Some rows) None \<and>
               select_courses E (?q2 rows) = Resolved (Some cs) None)) \<and>
         (courses (run st (fetchCourses E)) = courses st \<or>
          SetCourses (courses (run st (fetchCourses E))) \<in> set (fetchCourses E))"
  have q1: "assignments_query u = ?q1" by (simp add: assignments_query_def)
  note q2 = courses_query_def
  have "?P (select_assignments E ?q1)"
  proof (cases "select_assignments E ?q1" rule: outcome_cases)
    case (rejected v)
    then have "fetchCourses E =
      [SetLoading True, Query (assignments_query u),
       ConsoleError ''Error fetching courses:'' v, SetMessage load_failed_msg, SetLoading False]"
      by (intro fetchCourses_first_failed [OF assms]) (simp add: q1)
    with rejected show ?thesis by (simp add: q1 run_def)
  next
    case (error d m)
    then have "fetchCourses E =
      [SetLoading True, Query (assignments_query u),
       ConsoleError ''Error fetching courses:'' (Value (Some m)), SetMessage load_failed_msg,
       SetLoading False]"
      by (intro fetchCourses_first_failed [OF assms]) (simp add: q1)
    with error show ?thesis by (simp add: q1 run_def)
  next
    case no_rows
    then have "fetchCourses E =
      [SetLoading True, Query (assignments_query u), SetMessage not_assigned_msg,
       SetLoading False, SetLoading False]"
      by (intro fetchCourses_not_assigned [OF assms]) (simp add: q1)
    with no_rows show ?thesis by (auto simp: q1 run_def)
  next
    case (success a as)
    then have first: "select_assignments E (assignments_query u) = Resolved (Some (a # as)) None"
      by (simp add: q1)
    show ?thesis
    proof (cases "select_courses E (?q2 (a # as))" rule: outcome_cases)
      case (rejected v)
      then have "fetchCourses E =
        [SetLoading True, Query (assignments_query u),
         Query (courses_query (map course_id_assignment (a # as))),
         ConsoleError ''Error fetching courses:'' v, SetMessage load_failed_msg,
         SetLoading False]"
        by (intro fetchCourses_second_failed [OF assms first]) (simp add: q2)
      with success show ?thesis by (simp add: q1 q2 run_def)
    next
      case (error d m)
      then have "fetchCourses E =
        [SetLoading True, Query (assignments_query u),
         Query (courses_query (map course_id_assignment (a # as))),
         ConsoleError ''Error fetching courses:'' (Value (Some m)), SetMessage load_failed_msg,
         SetLoading False]"
        by (intro fetchCourses_second_failed [OF assms first]) (simp add: q2)
      with success show ?thesis by (simp add: q1 q2 run_def)
    next
      case no_rows
      then have "fetchCourses E =
        [SetLoading True, Query (assignments_query u),
         Query (courses_query (map course_id_assignment (a # as))),
         SetMessage no_courses_msg, SetLoading False]"
        by (intro fetchCourses_no_courses [OF assms first]) (simp add: q2)
      with success show ?thesis by (simp add: q1 q2 run_def)
    next
      case second: (success c cs)
      then have "fetchCourses E =
        [SetLoading True, Query (assignments_query u),
         Query (courses_query (map course_id_assignment (a # as))),
         SetCourses (c # cs), SetCourseId (id_course c), SetLoading False]"
        by (intro fetchCourses_loaded [OF assms first]) (simp add: q2)
      with success second show ?thesis by (simp add: q1 q2 run_def)
    qed
  qed
  then show ?thesis .
qed

theorem C5_two_reads_witness:
  "queries_of
     (fetchCourses
        (sample_env (Some faculty_user) (Resolved (Some [sample_assignment]) None)
           (Resolved (Some [sample_course]) None) (Rejected (Value None)))) =
     [Select ''teaching_assignments'' ''course_id'' (Eq ''user_id'' ''u-17'') None,
      Select ''courses'' ''*'' (In ''id'' [''c-1'']) (Some ''code'')] \<and>
   queries_of
     (fetchCourses
        (sample_env (Some faculty_user) (Resolved (Some []) None)
           (Resolved (Some [sample_course]) None) (Rejected (Value None)))) =
     [Select ''teaching_assignments'' ''course_id'' (Eq ''user_id'' ''u-17'') None] \<and>
   SetCourses [sample_course] \<in> set
     (fetchCourses
        (sample_env (Some faculty_user) (Resolved (Some [sample_assignment]) None)
           (Resolved (Some [sample_course]) None) (Rejected (Value None)))) \<and>
   courses (run initial_state
     (fetchCourses
        (sample_env (Some faculty_user) (Resolved (Some [sample_assignment]) None)
           (Resolved (Some [sample_course]) None) (Rejected (Value None))))) = [sample_course]"
proof -
  let ?E = "sample_env (Some faculty_user) (Resolved (Some [sample_assignment]) None)
           (Resolved (Some [sample_course]) None) (Rejected (Value None))"
  let ?N = "sample_env (Some faculty_user) (Resolved (Some []) None)
           (Resolved (Some [sample_course]) None) (Rejected (Value None))"
  have u: "user ?E = Some faculty_user" "user ?N = Some faculty_user"
    by (simp_all add: sample_env_def)
  have r: "role faculty_user = ''faculty''" by (simp add: faculty_user_def)
  have rows: "[sample_assignment] \<noteq> [] \<and>
      select_assignments ?E
        (Select ''teaching_assignments'' ''course_id'' (Eq ''user_id'' (id_user faculty_user))
           None) = Resolved (Some [sample_assignment]) None"
    by (simp add: sample_env_def)
  have none: "\<nexists>rows. rows \<noteq> [] \<and>
      select_assignments ?N
        (Select ''teaching_assignments'' ''course_id'' (Eq ''user_id'' (id_user faculty_user))
           None) = Resolved (Some rows) None"
    by (simp add: sample_env_def)
  have set: "SetCourses [sample_course] \<in> set (fetchCourses ?E)"
    by (simp add: fetch_defs sample_env_def faculty_user_def)
  have loaded: "courses (run initial_state (fetchCourses ?E)) = [sample_course]"
    by (simp add: fetch_defs sample_env_def faculty_user_def run_def)
  from C5_two_reads [OF u(1) r, of initial_state] rows
  have a: "queries_of (fetchCourses ?E) =
     [Select ''teaching_assignments'' ''course_id'' (Eq ''user_id'' (id_user faculty_user)) None,
      Select ''courses'' ''*'' (In ''id'' (map course_id_assignment [sample_assignment]))
        (Some ''code'')]"
    by blast
  from C5_two_reads [OF u(2) r, of initial_state] none
  have b: "queries_of (fetchCourses ?N) =
     [Select ''teaching_assignments'' ''course_id'' (Eq ''user_id'' (id_user faculty_user)) None]"
    by blast
  from a b set loaded show ?thesis
    by (simp add: faculty_user_def sample_assignment_def)
qed

text \<open>
  Claim C10, as stated, has the routine leave the \<open>courses\<close> state empty. The routine
  does not write \<open>courses\<close> on this path, and the effect runs again whenever \<open>user\<close>
  changes (lines 32 and 82): after a first run that loaded a course, a second run whose
  first read is empty leaves that course in the list, and the submit button enabled.
\<close>

theorem C10_counterexample:
  "user (sample_env (Some faculty_user) (Resolved (Some []) None) (Rejected (Value None))
          (Rejected (Value None))) = Some faculty_user \<and>
   role faculty_user = ''faculty'' \<and>
   select_assignments
     (sample_env (Some faculty_user) (Resolved (Some []) None) (Rejected (Value None))
        (Rejected (Value None)))
     (Select ''teaching_assignments'' ''course_id'' (Eq ''user_id'' (id_user faculty_user)) None) =
     Resolved (Some []) None \<and>
   courses
     (run
        (run initial_state
           (fetchCourses
              (sample_env (Some faculty_user) (Resolved (Some [sample_assignment]) None)
                 (Resolved (Some [sample_course]) None) (Rejected (Value None)))))
        (fetchCourses
           (sample_env (Some faculty_user) (Resolved (Some []) None) (Rejected (Value None))
              (Rejected (Value None))))) = [sample_course] \<and>
   render
     (sample_env (Some faculty_user) (Resolved (Some []) None) (Rejected (Value None))
        (Rejected (Value None)))
     (run
        (run initial_state
           (fetchCourses
              (sample_env (Some faculty_user) (Resolved (Some [sample_assignment]) None)
                 (Resolved (Some [sample_course]) None) (Rejected (Value None)))))
        (fetchCourses
           (sample_env (Some faculty_user) (Resolved (Some []) None) (Rejected (Value None))
              (Rejected (Value None))))) = FormView False"
  by (simp add: fetch_defs sample_env_def faculty_user_def run_def initial_state_def
      render_def submit_disabled_def not_assigned_msg_def)

text \<open>
  Claim C10, amended. For a faculty user whose first read resolves to the empty list,
  \<open>fetchCourses\<close> sets the message
  "You are not assigned to any courses. Please contact an administrator.", sends no
  second read, leaves the \<open>courses\<close> state as it was (empty on the first run, which
  starts from the initial state) and ends with \<open>loading\<close> false; the page then shows the
  form, and with an empty \<open>courses\<close> list the submit button is disabled.
\<close>

theorem C10_no_assignments:
  assumes "user E = Some u" and "role u = ''faculty''"
    and "select_assignments E
           (Select ''teaching_assignments'' ''course_id'' (Eq ''user_id'' (id_user u)) None) =
           Resolved (Some []) None"
  shows "message (run st (fetchCourses E)) =
           \<lparr>text_msg = ''You are not assigned to any courses. Please contact an administrator.'',
            type_msg = ''error''\<rparr> \<and>
         queries_of (fetchCourses E) =
           [Select ''teaching_assignments'' ''course_id'' (Eq ''user_id'' (id_user u)) None] \<and>
         courses (run st (fetchCourses E)) = courses st \<and>
         courses (run initial_state (fetchCourses E)) = [] \<and>
         loading (run st (fetchCourses E)) = False \<and>
         render E (run st (fetchCourses E)) = FormView (submitting st \<or> courses st = []) \<and>
         (\<forall>s :: page_state. courses s = [] \<longrightarrow> submit_disabled s)"
proof -
  have "select_assignments E (assignments_query u) = Resolved None None \<or>
        select_assignments E (assignments_query u) = Resolved (Some []) None"
    using assms(3) by (simp add: assignments_query_def)
  from fetchCourses_not_assigned [OF assms(1,2) this]
  have tr: "fetchCourses E =
    [SetLoading True, Query (assignments_query u), SetMessage not_assigned_msg,
     SetLoading False, SetLoading False]" .
  have st: "\<And>s. run s (fetchCourses E) = s\<lparr>loading := False, message := not_assigned_msg\<rparr>"
    unfolding tr by (simp add: run_def)
  show ?thesis
    unfolding st
    by (simp add: tr assignments_query_def not_assigned_msg_def render_def submit_disabled_def
        assms(1,2) initial_state_def)
qed

theorem C10_no_assignments_witness:
  "message (run initial_state
      (fetchCourses
         (sample_env (Some faculty_user) (Resolved (Some []) None) (Rejected (Value None))
            (Rejected (Value None))))) =
     \<lparr>text_msg = ''You are not assigned to any courses. Please contact an administrator.'',
      type_msg = ''error''\<rparr> \<and>
   queries_of
      (fetchCourses
         (sample_env (Some faculty_user) (Resolved (Some []) None) (Rejected (Value None))
            (Rejected (Value None)))) =
     [Select ''teaching_assignments'' ''course_id'' (Eq ''user_id'' ''u-17'') None] \<and>
   courses (run initial_state
      (fetchCourses
         (sample_env (Some faculty_user) (Resolved (Some []) None) (Rejected (Value None))
            (Rejected (Value None))))) = [] \<and>
   loading (run initial_state
      (fetchCourses
         (sample_env (Some faculty_user) (Resolved (Some []) None) (Rejected (Value None))
            (Rejected (Value None))))) = False \<and>
   render
      (sample_env (Some faculty_user) (Resolved (Some []) None) (Rejected (Value None))
         (Rejected (Value None)))
      (run initial_state
        (fetchCourses
           (sample_env (Some faculty_user) (Resolved (Some []) None) (Rejected (Value None))
              (Rejected (Value None))))) = FormView True"
proof -
  let ?E = "sample_env (Some faculty_user) (Resolved (Some []) None) (Rejected (Value None))
            (Rejected (Value None))"
  have u: "user ?E = Some faculty_user" by (simp add: sample_env_def)
  have r: "role faculty_user = ''faculty''" by (simp add: faculty_user_def)
  have e: "select_assignments ?E
      (Select ''teaching_assignments'' ''course_id'' (Eq ''user_id'' (id_user faculty_user))
         None) = Resolved (Some []) None"
    by (simp add: sample_env_def)
  from C10_no_assignments [OF u r e, of initial_state] show ?thesis
    by (simp add: faculty_user_def initial_state_def)
qed

end
